theory Spec2Isabelle
  imports Complex_Main "HOL-Library.Word"
begin

text \<open>
  The CV portal takes form data and a PDF, stores the file, and asks a vision model whether
  each form field agrees with the document. This theory embeds five pieces of its
  server code: the aggregation of the model's verdicts (\<open>processValidationResults\<close>), the
  clean-up of the model's reply before \<open>JSON.parse\<close>, the prompt
  (\<open>createDocumentValidationPrompt\<close>), the upload procedure (\<open>cvRouter.upload\<close> with
  \<open>validateFileContent\<close>) and the background task (\<open>validateCvDataTask\<close>). Calls that leave
  the program (object storage, database, task service, HTTP, library parsers) are
  parameters: a record says what each call returns or throws.
\<close>

section \<open>JavaScript numbers\<close>

text \<open>
  A JavaScript number is an IEEE 754 double. \<open>Finite s m e\<close> is the finite double with sign
  bit \<open>s\<close>, significand \<open>m\<close> and exponent \<open>e\<close>, of value \<open>m * 2 ^ e\<close>, negated when \<open>s\<close> is set:
  \<open>0 \<le> m < 2 ^ 53\<close>, \<open>- 1074 \<le> e \<le> 971\<close>, and \<open>2 ^ 52 \<le> m\<close> unless \<open>e = - 1074\<close> (the subnormal
  numbers and the two zeros), so that each finite double is written in one way only.
\<close>

datatype number = Finite bool int int | Infinity | NegInfinity | NaN

definition plus_zero :: number where
  "plus_zero = Finite False 0 (- 1074)"

text \<open>The number of binary digits of a positive integer.\<close>

function bits :: "int \<Rightarrow> int" where
  "bits n = (if n \<le> 0 then 0 else 1 + bits (n div 2))"
  by pat_completeness auto
termination
  by (relation "measure nat") auto

declare bits.simps [simp del]

text \<open>The integer \<open>e\<close> with \<open>2 ^ e \<le> n / d < 2 ^ (e + 1)\<close>, for positive \<open>n\<close> and \<open>d\<close>.\<close>

definition floor_log2_ratio :: "int \<Rightarrow> int \<Rightarrow> int" where
  "floor_log2_ratio n d =
     (let t = bits n - bits d
      in if d * 2 ^ nat t \<le> n * 2 ^ nat (- t) then t else t - 1)"

text \<open>
  Rounding to nearest, ties to even: the double that the operations return for the exact
  result \<open>(n / d) * 2 ^ k\<close> (\<open>0 \<le> n\<close>, \<open>0 < d\<close>) with sign \<open>neg\<close>. The result has 53 significant
  bits, or fewer at the smallest exponent; a result beyond the largest finite double is
  an infinity, and one that rounds to nothing is a zero with the sign of the exact result.
\<close>

definition round_ratio :: "bool \<Rightarrow> int \<Rightarrow> int \<Rightarrow> int \<Rightarrow> number" where
  "round_ratio neg n d k =
     (if n = 0 then Finite neg 0 (- 1074)
      else
        let e = k + floor_log2_ratio n d;
            q = max (e - 52) (- 1074);
            n' = n * 2 ^ nat (k - q);
            d' = d * 2 ^ nat (q - k);
            f = n' div d';
            r = n' mod d';
            m = (if 2 * r < d' then f else if d' < 2 * r then f + 1
                 else if even f then f else f + 1);
            m' = (if m = 2 ^ 53 then 2 ^ 52 else m);
            q' = (if m = 2 ^ 53 then q + 1 else q)
        in if 971 < q' then (if neg then NegInfinity else Infinity)
           else Finite neg m' q')"

definition infinite_number :: "number \<Rightarrow> bool" where
  "infinite_number x = (x = Infinity \<or> x = NegInfinity)"

definition negative :: "number \<Rightarrow> bool" where
  "negative x =
     (case x of Finite s m e \<Rightarrow> s | Infinity \<Rightarrow> False | NegInfinity \<Rightarrow> True | NaN \<Rightarrow> False)"

definition significand :: "number \<Rightarrow> int" where
  "significand x = (case x of Finite s m e \<Rightarrow> m | _ \<Rightarrow> 0)"

definition exponent :: "number \<Rightarrow> int" where
  "exponent x = (case x of Finite s m e \<Rightarrow> e | _ \<Rightarrow> 0)"

definition signed :: "number \<Rightarrow> int" where
  "signed x = (if negative x then - significand x else significand x)"

text \<open>\<open>x + y\<close> on numbers: \<open>NaN\<close> stays, opposite infinities give \<open>NaN\<close>, an exact sum of zero
  is \<open>+0\<close> unless both operands are \<open>-0\<close>, and any other exact sum is rounded.\<close>

definition fadd :: "number \<Rightarrow> number \<Rightarrow> number" where
  "fadd x y =
     (if x = NaN \<or> y = NaN then NaN
      else if infinite_number x then (if infinite_number y \<and> x \<noteq> y then NaN else x)
      else if infinite_number y then y
      else
        let e = min (exponent x) (exponent y);
            a = signed x * 2 ^ nat (exponent x - e) + signed y * 2 ^ nat (exponent y - e)
        in if a = 0 then Finite (negative x \<and> negative y) 0 (- 1074)
           else round_ratio (a < 0) \<bar>a\<bar> 1 e)"

text \<open>\<open>x / y\<close> on numbers, with the sign of the result the exclusive or of the signs.\<close>

definition fdiv :: "number \<Rightarrow> number \<Rightarrow> number" where
  "fdiv x y =
     (if x = NaN \<or> y = NaN then NaN
      else if infinite_number x
        then (if infinite_number y then NaN
              else if negative x \<noteq> negative y then NegInfinity else Infinity)
      else if infinite_number y then Finite (negative x \<noteq> negative y) 0 (- 1074)
      else if significand y = 0
        then (if significand x = 0 then NaN
              else if negative x \<noteq> negative y then NegInfinity else Infinity)
      else round_ratio (negative x \<noteq> negative y) (significand x) (significand y)
             (exponent x - exponent y))"

text \<open>The number of a length, and the number a decimal literal of value \<open>n / d\<close> denotes.\<close>

definition number_of_nat :: "nat \<Rightarrow> number" where
  "number_of_nat n = round_ratio False (int n) 1 0"

definition decimal :: "int \<Rightarrow> int \<Rightarrow> number" where
  "decimal n d = round_ratio False n d 0"

text \<open>The rational value of a finite number, to compare a result with exact arithmetic.\<close>

definition value_of :: "number \<Rightarrow> rat" where
  "value_of x =
     (case x of
        Finite s m e \<Rightarrow>
          (if s then - 1 else 1) * of_int m * (if 0 \<le> e then 2 ^ nat e else 1 / 2 ^ nat (- e))
      | _ \<Rightarrow> 0)"

section \<open>Result aggregation: \<open>processValidationResults\<close>\<close>

text \<open>
  The verdict of one form field, as the TypeScript interface \<open>ValidationField\<close> declares it.
  The value is produced by \<open>JSON.parse\<close> and cast without a run-time check, so \<open>status\<close> is
  the string the model replied with (the four literals of the declared union are the
  expected ones) and \<open>confidence\<close> may be missing: the aggregator itself reads it through
  \<open>f.confidence ?? 0\<close>. The counters are natural numbers.
\<close>

record ValidationField =
  field :: string
  status :: string
  confidence :: "number option"
  reason :: string
  extractedValue :: "string option"

record AIValidationResponse =
  fields' :: "ValidationField list"

record counters =
  totalChecked :: nat
  matchCount :: nat
  partialMatchCount :: nat
  noMatchCount :: nat

record summary = counters +
  overallConfidence :: number

record ProcessedValidationResults = AIValidationResponse +
  summary :: summary

text \<open>The mutable locals of \<open>processValidationResults\<close>: the four counters and \<open>errors\<close>.\<close>

record locals = counters +
  errors :: "string list"

text \<open>The object \<open>processValidationResults\<close> returns.\<close>

record aggregate =
  overallStatus :: string
  processedResults :: ProcessedValidationResults
  errors :: "string list"

definition locals0 :: locals where
  "locals0 = \<lparr>totalChecked = 0, matchCount = 0, partialMatchCount = 0, noMatchCount = 0,
     locals.errors = []\<rparr>"

text \<open>One iteration of \<open>for (const field of fields)\<close>: the \<open>if\<close>/\<open>else if\<close> chain, then the
  separate test for \<open>not_found\<close>.\<close>

definition loop_body :: "ValidationField \<Rightarrow> locals \<Rightarrow> locals" where
  "loop_body f v =
     (let v1 =
        (if status f = ''match'' then v\<lparr>matchCount := matchCount v + 1\<rparr>
         else if status f = ''partial_match'' then v\<lparr>partialMatchCount := partialMatchCount v + 1\<rparr>
         else if status f = ''no_match''
           then v\<lparr>noMatchCount := noMatchCount v + 1,
                  locals.errors := locals.errors v @ [field f @ '': '' @ reason f]\<rparr>
         else v)
      in if status f \<noteq> ''not_found'' then v1\<lparr>totalChecked := totalChecked v1 + 1\<rparr> else v1)"

fun loop :: "ValidationField list \<Rightarrow> locals \<Rightarrow> locals" where
  "loop [] v = v"
| "loop (f # fs) v = loop fs (loop_body f v)"

text \<open>\<open>f.confidence ?? 0\<close>\<close>

definition confidence_or_0 :: "ValidationField \<Rightarrow> number" where
  "confidence_or_0 f = (case confidence f of None \<Rightarrow> plus_zero | Some c \<Rightarrow> c)"

text \<open>\<open>fields.reduce((sum, f) => sum + (f.confidence ?? 0), 0) / Math.max(fields.length, 1)\<close>\<close>

definition mean_confidence :: "ValidationField list \<Rightarrow> number" where
  "mean_confidence fs =
     fdiv (foldl (\<lambda>sum f. fadd sum (confidence_or_0 f)) plus_zero fs)
       (number_of_nat (max (length fs) 1))"

definition insufficient :: string where
  "insufficient = ''Insufficient matches found between form data and PDF content''"

text \<open>The decision after the loop. \<open>Math.ceil(totalChecked * 0.7)\<close> is the ceiling of the
  exact product; the rounded product of a count and the double nearest to 0.7 has the same
  ceiling for every length a list can have.\<close>

definition decide :: "locals \<Rightarrow> string \<times> string list" where
  "decide v =
     (if noMatchCount v > 0 then (''failed'', locals.errors v)
      else if matchCount v = totalChecked v \<and> totalChecked v > 0 then (''validated'', locals.errors v)
      else if int (matchCount v + partialMatchCount v) \<ge> \<lceil>real (totalChecked v) * (7 / 10)\<rceil>
        then (''validated'', locals.errors v)
      else (''failed'',
            if length (locals.errors v) = 0 then locals.errors v @ [insufficient]
            else locals.errors v))"

definition processValidationResults :: "AIValidationResponse \<Rightarrow> aggregate" where
  "processValidationResults aiResponse =
     (let fs = fields' aiResponse;
          v = loop fs locals0;
          (st, errs) = decide v
      in \<lparr>overallStatus = st,
          processedResults =
            \<lparr>fields' = fs,
             summary = \<lparr>totalChecked = totalChecked v, matchCount = matchCount v,
                        partialMatchCount = partialMatchCount v, noMatchCount = noMatchCount v,
                        overallConfidence = mean_confidence fs\<rparr>\<rparr>,
          errors = errs\<rparr>)"

text \<open>Vocabulary for stating the aggregation properties: the verdicts with a given status,
  the verdicts that count as checked, and the error entry of one verdict.\<close>

definition with_status :: "string \<Rightarrow> ValidationField list \<Rightarrow> ValidationField list" where
  "with_status s fs = filter (\<lambda>f. status f = s) fs"

definition checked :: "ValidationField list \<Rightarrow> ValidationField list" where
  "checked fs = filter (\<lambda>f. status f \<noteq> ''not_found'') fs"

definition error_entry :: "ValidationField \<Rightarrow> string" where
  "error_entry f = field f @ '': '' @ reason f"

abbreviation summary_of :: "AIValidationResponse \<Rightarrow> summary" where
  "summary_of r \<equiv> summary (processedResults (processValidationResults r))"

text \<open>The confidence values as stated, and their mean in the arithmetic of numbers: the
  values added one after another from \<open>+0\<close>, and the sum divided by their count (by 1 when
  there is none).\<close>

fun added_in_turn :: "number \<Rightarrow> number list \<Rightarrow> number" where
  "added_in_turn acc [] = acc"
| "added_in_turn acc (c # cs) = added_in_turn (fadd acc c) cs"

definition rounded_mean :: "number list \<Rightarrow> number" where
  "rounded_mean cs =
     fdiv (added_in_turn plus_zero cs) (number_of_nat (if cs = [] then 1 else length cs))"

text \<open>Sample verdicts used to run the aggregator, with the confidence in hundredths.\<close>

definition vf :: "string \<Rightarrow> string \<Rightarrow> int \<Rightarrow> ValidationField" where
  "vf n s c = \<lparr>field = n, status = s, confidence = Some (decimal c 100),
     reason = ''checked '' @ n, extractedValue = None\<rparr>"


definition three_and_contradiction :: AIValidationResponse where
  "three_and_contradiction = \<lparr>fields' =
     [vf ''fullName'' ''match'' 100, vf ''email'' ''no_match'' 90, vf ''phone'' ''match'' 100,
      vf ''skills'' ''match'' 100, vf ''experience'' ''no_match'' 80]\<rparr>"

definition one_contradiction :: AIValidationResponse where
  "one_contradiction = \<lparr>fields' = [vf ''fullName'' ''match'' 100, vf ''email'' ''no_match'' 90]\<rparr>"

definition unknown_statuses :: AIValidationResponse where
  "unknown_statuses = \<lparr>fields' = [vf ''fullName'' ''match'' 100, vf ''email'' ''unclear'' 30,
     vf ''phone'' ''unclear'' 20]\<rparr>"

definition verdict :: "string \<Rightarrow> number \<Rightarrow> ValidationField" where
  "verdict s c = \<lparr>field = ''phone'', status = s, confidence = Some c, reason = ''as read'',
     extractedValue = None\<rparr>"

definition three_confidences :: AIValidationResponse where
  "three_confidences = \<lparr>fields' = [verdict ''match'' (decimal 9 10),
     verdict ''not_found'' (decimal 8 10), verdict ''partial_match'' (decimal 1 1)]\<rparr>"

definition three_tenths :: AIValidationResponse where
  "three_tenths = \<lparr>fields' = [verdict ''match'' (decimal 1 10),
     verdict ''match'' (decimal 2 10), verdict ''match'' (decimal 3 10)]\<rparr>"

section \<open>Normalisation of the model's reply\<close>

text \<open>
  The reply text is a JavaScript string; this theory keeps the characters below 256.
  \<open>is_ws\<close> is the white space of \<open>String.prototype.trim\<close> and of the regular expression
  class \<open>\s\<close> in that range: tab, line feed, vertical tab, form feed, carriage return,
  space and no-break space.
\<close>

definition is_ws :: "char \<Rightarrow> bool" where
  "is_ws c = (of_char c \<in> {9, 10, 11, 12, 13, 32, 160 :: nat})"

definition trim :: "string \<Rightarrow> string" where
  "trim s = rev (dropWhile is_ws (rev (dropWhile is_ws s)))"

definition startsWith :: "string \<Rightarrow> string \<Rightarrow> bool" where
  "startsWith s p = (take (length p) s = p)"

text \<open>\<open>s.replace(/LIT\s*/, '')\<close> for a literal \<open>LIT\<close>: the leftmost occurrence of the literal
  is removed together with the white space that follows it.\<close>

fun replace_open :: "string \<Rightarrow> string \<Rightarrow> string" where
  "replace_open lit [] = []"
| "replace_open lit (c # cs) =
     (if startsWith (c # cs) lit then dropWhile is_ws (drop (length lit) (c # cs))
      else c # replace_open lit cs)"

text \<open>\<open>s.replace(/\s*```$/, '')\<close>: the scan tries each position from the left; the pattern
  matches at a position when the rest of the string is white space followed by the three
  backticks and the end of the input, and the match is removed.\<close>

fun replace_close :: "string \<Rightarrow> string" where
  "replace_close [] = []"
| "replace_close (c # cs) =
     (if dropWhile is_ws (c # cs) = ''```'' then [] else c # replace_close cs)"

text \<open>The value of \<open>cleanedResponse\<close> in \<open>validateCvDataTask\<close> when \<open>JSON.parse\<close> is called.\<close>

definition cleanedResponse :: "string \<Rightarrow> string" where
  "cleanedResponse aiResponse =
     (let c = trim aiResponse in
      if startsWith c ''```json'' then replace_close (replace_open ''```json'' c)
      else if startsWith c ''```'' then replace_close (replace_open ''```'' c)
      else c)"

text \<open>A reply wrapped in a Markdown code fence: the opening fence with its language tag
  (empty for a bare fence) on a line of its own, the text, the closing fence on its own line.\<close>

definition fenced :: "string \<Rightarrow> string \<Rightarrow> string" where
  "fenced tag x = ''```'' @ tag @ [CHR 0x0A] @ x @ [CHR 0x0A] @ ''```''"

section \<open>Prompt construction: \<open>createDocumentValidationPrompt\<close>\<close>

text \<open>The \<open>formData\<close> object of the task's payload.\<close>

record formData =
  fullName :: string
  email :: string
  phone :: "string option"
  skills :: "string option"
  experience :: "string option"

text \<open>\<open>value ?? 'Not provided'\<close>\<close>

definition orNotProvided :: "string option \<Rightarrow> string" where
  "orNotProvided v = (case v of None \<Rightarrow> ''Not provided'' | Some s \<Rightarrow> s)"

text \<open>The lines of a template literal, each ended by its line feed.\<close>

definition template_lines :: "string list \<Rightarrow> string" where
  "template_lines ls = concat (map (\<lambda>l. l @ [CHR 0x0A]) ls)"

text \<open>The template literal of the source, line by line, after the line feed that follows
  its opening backtick.\<close>

definition createDocumentValidationPrompt :: "formData \<Rightarrow> string" where
  \<open>createDocumentValidationPrompt formData =
     [CHR 0x0A] @ template_lines
     [''Please analyze the CV/Resume document (PDF or image) and validate if the following form data matches what you can see in the document.'',
      '''',
      ''CRITICAL: Your response must be ONLY the JSON object. Do not include any markdown formatting, code blocks, or explanatory text. Just return the raw JSON.'',
      '''',
      ''FORM DATA TO VALIDATE:'',
      ''- Full Name: "'' @ fullName formData @ ''"'',
      ''- Email: "'' @ email formData @ ''"'',
      ''- Phone: "'' @ orNotProvided (phone formData) @ ''"'',
      ''- Skills: "'' @ orNotProvided (skills formData) @ ''"'',
      ''- Experience: "'' @ orNotProvided (experience formData) @ ''"'',
      '''',
      ''For each field, determine:'',
      ''1. Does the form data match what's visible in the CV document?'',
      ''2. How confident are you in this match (0.0 to 1.0)?'',
      ''3. What specific value did you find in the CV document (if any)?'',
      ''4. Why did you make this determination?'',
      '''',
      ''Return your analysis as a JSON object with this exact structure:'',
      ''{'',
      ''  "fields": ['',
      ''    {'',
      ''      "field": "fullName",'',
      ''      "status": "match|partial_match|no_match|not_found",'',
      ''      "confidence": 0.95,'',
      ''      "reason": "Explanation of your reasoning",'',
      ''      "extractedValue": "What you found in the CV document"'',
      ''    },'',
      ''    {'',
      ''      "field": "email",'',
      ''      "status": "match|partial_match|no_match|not_found",'',
      ''      "confidence": 0.90,'',
      ''      "reason": "Explanation of your reasoning",'',
      ''      "extractedValue": "What you found in the CV document"'',
      ''    },'',
      ''    {'',
      ''      "field": "phone",'',
      ''      "status": "match|partial_match|no_match|not_found",'',
      ''      "confidence": 0.85,'',
      ''      "reason": "Explanation of your reasoning",'',
      ''      "extractedValue": "What you found in the CV document"'',
      ''    },'',
      ''    {'',
      ''      "field": "skills",'',
      ''      "status": "match|partial_match|no_match|not_found",'',
      ''      "confidence": 0.80,'',
      ''      "reason": "Explanation of your reasoning",'',
      ''      "extractedValue": "What you found in the CV document"'',
      ''    },'',
      ''    {'',
      ''      "field": "experience",'',
      ''      "status": "match|partial_match|no_match|not_found",'',
      ''      "confidence": 0.75,'',
      ''      "reason": "Explanation of your reasoning",'',
      ''      "extractedValue": "What you found in the CV document"'',
      ''    }'',
      ''  ]'',
      ''}'',
      '''',
      ''Status definitions:'',
      ''- "match": Form data exactly or very closely matches what's visible in the CV'',
      ''- "partial_match": Form data partially matches CV content but has differences'',
      ''- "no_match": Form data contradicts what's visible in the CV'',
      ''- "not_found": Could not find this information in the CV document'',
      '''',
      ''Be thorough but practical. Consider variations in formatting, abbreviations, and synonyms. Look carefully at all text visible in the CV document, whether it's a PDF or image format.'']\<close>

text \<open>\<open>s.includes(p)\<close>: \<open>p\<close> occurs in \<open>s\<close> at some position.\<close>

fun includesStr :: "string \<Rightarrow> string \<Rightarrow> bool" where
  "includesStr [] p = (p = [])"
| "includesStr (c # cs) p = (startsWith (c # cs) p \<or> includesStr cs p)"

definition sample_formData :: formData where
  "sample_formData = \<lparr>fullName = ''Ada Lovelace'', email = ''ada@example.org'',
     phone = Some ''555-0100'', skills = None, experience = None\<rparr>"

section \<open>Upload: \<open>validateFileContent\<close> and \<open>cvRouter.upload\<close>\<close>

text \<open>
  A thrown value is an \<open>Error\<close> with its message, or some other value (the handlers test
  \<open>error instanceof Error\<close>). A function that may throw returns \<open>thrown + 'a\<close>.
\<close>

datatype thrown = Error string | NonError

type_synonym byte = "8 word"

definition MAX_FILE_SIZE :: nat where
  "MAX_FILE_SIZE = 10 * 1024 * 1024"

definition PDF_MAGIC_BYTES :: "byte list" where
  "PDF_MAGIC_BYTES = [0x25, 0x50, 0x44, 0x46]"

text \<open>\<open>toLowerCase\<close> on the characters below 256: the letters A to Z and the accented
  capitals of Latin-1 move up by 32.\<close>

definition lower_char :: "char \<Rightarrow> char" where
  "lower_char c =
     (let n = (of_char c :: nat)
      in if (65 \<le> n \<and> n \<le> 90) \<or> (192 \<le> n \<and> n \<le> 222 \<and> n \<noteq> 215) then char_of (n + 32)
         else c)"

definition toLowerCase :: "string \<Rightarrow> string" where
  "toLowerCase s = map lower_char s"

definition endsWith :: "string \<Rightarrow> string \<Rightarrow> bool" where
  "endsWith s p = (length p \<le> length s \<and> drop (length s - length p) s = p)"

text \<open>\<open>PDF_MAGIC_BYTES.every((byte, index) => magicBytes[index] === byte)\<close>: an index beyond
  the end of \<open>magicBytes\<close> reads \<open>undefined\<close>, which equals no byte.\<close>

definition every_magic :: "byte list \<Rightarrow> bool" where
  "every_magic magicBytes =
     list_all (\<lambda>index. index < length magicBytes \<and> magicBytes ! index = PDF_MAGIC_BYTES ! index)
       [0..<length PDF_MAGIC_BYTES]"

text \<open>\<open>validateFileContent\<close>. \<open>Buffer.from(base64Content, 'base64')\<close> belongs to the
  platform and is the parameter \<open>decode\<close>. The size in the first message is
  \<open>MAX_FILE_SIZE / (1024 * 1024)\<close>, that is 10.\<close>

definition validateFileContent :: "(string \<Rightarrow> byte list) \<Rightarrow> string \<Rightarrow> string \<Rightarrow> thrown + byte list" where
  "validateFileContent decode base64Content fileName =
     (let buffer = decode base64Content in
      if length buffer > MAX_FILE_SIZE
        then Inl (Error (''File too large. Maximum size is '' @ ''10'' @ ''MB''))
      else
        let magicBytes = take 4 buffer;
            isPDF = every_magic magicBytes
        in if \<not> isPDF then Inl (Error ''Invalid file format. Only PDF files are allowed.'')
           else if \<not> endsWith (toLowerCase fileName) ''.pdf''
             then Inl (Error ''Invalid file extension. Only .pdf files are allowed.'')
           else Inr buffer)"

text \<open>The input object of the procedure: the form data, the file name and the file
  content in base64.\<close>

record upload_input = formData +
  fileName :: string
  fileContent :: string

text \<open>The payload of the task \<open>validate-cv-data\<close>.\<close>

record CVValidationPayload =
  cvId :: string
  fileUrl :: string
  formData :: formData

text \<open>A row of the table \<open>CV\<close>: the form data, the stored file and the validation columns
  with their defaults (\<open>pending\<close>, no results, no errors, no date).\<close>

record CV = formData +
  id' :: string
  fileName :: string
  fileUrl :: string
  validationStatus :: string
  validationResults :: "ProcessedValidationResults option"
  validationErrors :: "string list"
  validatedAt :: "nat option"

text \<open>What the procedure can change: the objects of the bucket \<open>cvs\<close> by name, the rows of
  the table by id, and the task runs requested from the task service.\<close>

record world =
  bucket :: "string \<rightharpoonup> byte list"
  table :: "string \<rightharpoonup> CV"
  triggered :: "CVValidationPayload list"

text \<open>What the procedure reads from its environment: the library checks and conversions,
  the clock, the configuration, and what each outside call does when it is made (the value
  it throws, if it throws; the id the database gives a new row).\<close>

record upload_env =
  is_email :: "string \<Rightarrow> bool"
  zod_message :: "string list \<Rightarrow> string"
  base64_decode :: "string \<Rightarrow> byte list"
  Date_now :: nat
  MINIO_USE_SSL :: string
  MINIO_ENDPOINT :: string
  MINIO_PORT :: string
  putObject_throws :: "thrown option"
  create_throws :: "thrown option"
  new_id :: string
  trigger_throws :: "thrown option"

text \<open>A number in a template literal: its decimal digits.\<close>

fun dec :: "nat \<Rightarrow> string" where
  "dec n = (if n < 10 then [char_of (48 + n)] else dec (n div 10) @ [char_of (48 + n mod 10)])"

declare dec.simps [simp del]

text \<open>The checks of the input schema, in the order of its fields, with their messages.\<close>

definition input_issues :: "upload_env \<Rightarrow> upload_input \<Rightarrow> string list" where
  "input_issues env input =
     (if length (fullName input) < 1 then [''Full name is required''] else [])
     @ (if \<not> is_email env (email input) then [''Valid email is required''] else [])
     @ (if length (upload_input.fileName input) < 1 then [''File name is required''] else [])
     @ (if length (fileContent input) < 1 then [''File content is required''] else [])"

definition putObject :: "upload_env \<Rightarrow> world \<Rightarrow> string \<Rightarrow> byte list \<Rightarrow> thrown + world" where
  "putObject env w name content =
     (case putObject_throws env of
        Some e \<Rightarrow> Inl e
      | None \<Rightarrow> Inr (w\<lparr>bucket := (bucket w)(name \<mapsto> content)\<rparr>))"

definition create :: "upload_env \<Rightarrow> world \<Rightarrow> formData \<Rightarrow> string \<Rightarrow> string \<Rightarrow> thrown + CV \<times> world" where
  "create env w fd name url =
     (case create_throws env of
        Some e \<Rightarrow> Inl e
      | None \<Rightarrow>
          let cv = \<lparr>fullName = fullName fd, email = email fd, phone = phone fd,
                     skills = skills fd, experience = experience fd,
                     CV.id' = new_id env, CV.fileName = name, CV.fileUrl = url,
                     validationStatus = ''pending'', validationResults = None,
                     validationErrors = [], validatedAt = None\<rparr>
          in Inr (cv, w\<lparr>table := (table w)(new_id env \<mapsto> cv)\<rparr>))"

definition trigger :: "upload_env \<Rightarrow> world \<Rightarrow> CVValidationPayload \<Rightarrow> thrown + world" where
  "trigger env w payload =
     (case trigger_throws env of
        Some e \<Rightarrow> Inl e
      | None \<Rightarrow> Inr (w\<lparr>triggered := triggered w @ [payload]\<rparr>))"

record upload_result =
  success :: bool
  id' :: string
  message :: string

text \<open>The outer \<open>catch\<close> of the mutation: what it throws for the error it caught.\<close>

definition upload_catch :: "thrown \<Rightarrow> thrown" where
  "upload_catch error =
     (case error of
        Error msg \<Rightarrow>
          if includesStr msg ''File too large'' \<or> includesStr msg ''Invalid file format''
             \<or> includesStr msg ''Invalid file extension'' then error
          else if includesStr msg ''ECONNREFUSED'' \<or> includesStr msg ''ENOTFOUND''
            then Error ''Storage service is currently unavailable. Please try again later.''
          else if includesStr msg ''Unique constraint''
            then Error ''A CV with this email already exists.''
          else Error ''Failed to upload CV. Please try again.''
      | NonError \<Rightarrow> Error ''Failed to upload CV. Please try again.'')"

text \<open>The mutation: validate, store the object, create the row, trigger the task. The inner
  \<open>try\<close> around the trigger keeps its error from the outer \<open>catch\<close>.\<close>

definition upload_mutation :: "upload_env \<Rightarrow> upload_input \<Rightarrow> world \<Rightarrow> (thrown + upload_result) \<times> world" where
  "upload_mutation env input w =
     (case validateFileContent (base64_decode env) (fileContent input) (upload_input.fileName input) of
        Inl e \<Rightarrow> (Inl (upload_catch e), w)
      | Inr fileBuffer \<Rightarrow>
          let timestamp = Date_now env;
              uniqueFileName = dec timestamp @ ''-'' @ upload_input.fileName input
          in case putObject env w uniqueFileName fileBuffer of
               Inl e \<Rightarrow> (Inl (upload_catch e), w)
             | Inr w1 \<Rightarrow>
                 let protocol = (if MINIO_USE_SSL env = ''true'' then ''https'' else ''http'');
                     url = protocol @ ''://'' @ MINIO_ENDPOINT env @ '':'' @ MINIO_PORT env
                             @ ''/cvs/'' @ uniqueFileName;
                     fd = \<lparr>fullName = fullName input, email = email input, phone = phone input,
                            skills = skills input, experience = experience input\<rparr>
                 in case create env w1 fd uniqueFileName url of
                      Inl e \<Rightarrow> (Inl (upload_catch e), w1)
                    | Inr (cv, w2) \<Rightarrow>
                        let payload = \<lparr>cvId = CV.id' cv, CVValidationPayload.fileUrl = url, formData = fd\<rparr>;
                            w3 = (case trigger env w2 payload of
                                    Inl triggerError \<Rightarrow> w2
                                  | Inr w' \<Rightarrow> w')
                        in (Inr \<lparr>success = True, upload_result.id' = CV.id' cv,
                                  message = ''CV uploaded successfully. AI validation is in progress.''\<rparr>,
                            w3))"

text \<open>The procedure: the input schema is checked before the mutation runs.\<close>

definition upload :: "upload_env \<Rightarrow> upload_input \<Rightarrow> world \<Rightarrow> (thrown + upload_result) \<times> world" where
  "upload env input w =
     (if input_issues env input \<noteq> [] then (Inl (Error (zod_message env (input_issues env input))), w)
      else upload_mutation env input w)"

text \<open>A sample environment and inputs. The stand-in for the base64 decoder reads each
  character as one byte.\<close>

definition sample_env :: upload_env where
  "sample_env = \<lparr>is_email = (\<lambda>s. CHR ''@'' \<in> set s), zod_message = concat,
     base64_decode = map (\<lambda>c. of_nat (of_char c)), Date_now = 1700,
     MINIO_USE_SSL = ''false'', MINIO_ENDPOINT = ''localhost'', MINIO_PORT = ''9000'',
     putObject_throws = None, create_throws = None, new_id = ''cv1'',
     trigger_throws = Some (Error ''TRIGGER_API_KEY is not set'')\<rparr>"

definition empty_world :: world where
  "empty_world = \<lparr>bucket = Map.empty, table = Map.empty, triggered = []\<rparr>"

definition text_as_pdf :: upload_input where
  "text_as_pdf = \<lparr>fullName = ''Ada Lovelace'', email = ''ada@example.org'',
     phone = None, skills = None, experience = None,
     upload_input.fileName = ''cv.pdf'', fileContent = ''Dear Sir or Madam''\<rparr>"

definition pdf_as_doc :: upload_input where
  "pdf_as_doc = \<lparr>fullName = ''Ada Lovelace'', email = ''ada@example.org'',
     phone = None, skills = None, experience = None,
     upload_input.fileName = ''cv.PDF.doc'', fileContent = ''%PDF-1.7''\<rparr>"

definition good_upload :: upload_input where
  "good_upload = \<lparr>fullName = ''Ada Lovelace'', email = ''ada@example.org'',
     phone = None, skills = None, experience = None,
     upload_input.fileName = ''Ada.PDF'', fileContent = ''%PDF-1.7''\<rparr>"

section \<open>The background task: \<open>validateCvDataTask\<close>\<close>

text \<open>The payload as the task receives it: a property may be missing (or of the wrong
  type), which the schema \<open>CVValidationPayload\<close> rejects.\<close>

record raw_payload =
  raw_cvId :: "string option"
  raw_fileUrl :: "string option"
  raw_formData :: "formData option"

text \<open>An HTTP response: \<open>ok\<close>, \<open>status\<close>, \<open>statusText\<close>, and its body read as bytes
  (\<open>arrayBuffer()\<close>) or as text (\<open>text()\<close>).\<close>

record response =
  ok :: bool
  http_status :: nat
  statusText :: string
  arrayBuffer :: "byte list"
  body_text :: string

text \<open>The second part of the message content: the PDF as a file with its name and data
  URL, or the URL of an image.\<close>

datatype attachment = File_part string string | Image_url_part string

record requestBody =
  model :: string
  prompt_text :: string
  attached :: attachment
  temperature :: number

text \<open>The calls that leave the task, in the order a run can make them: the write that marks
  the row \<open>validating\<close>, the two reads of the document, the call of the model, the write of
  the results, and the write of the \<open>catch\<close>.\<close>

datatype outside_call =
  Update_validating | Fetch_document | Get_object | Post_completion | Update_results | Update_failed

text \<open>What the task reads from outside: the message of the error the schema throws for a
  payload, what each database write throws if it throws (the client can fail for any
  reason), the message of the database client when no row has the id, the two ways to
  read the document, the base64 encoder, the call of the model, the reading of the reply's
  content (\<open>response.json()\<close>, then \<open>choices[0]?.message?.content\<close>), \<open>JSON.parse\<close> with the
  cast to \<open>AIValidationResponse\<close>, and the clock.\<close>

record task_env =
  zod_error :: "raw_payload \<Rightarrow> string"
  write_throws :: "outside_call \<Rightarrow> thrown option"
  not_found_error :: string
  fetch_document :: "string \<Rightarrow> thrown + response"
  getObject :: "string \<Rightarrow> thrown + byte list"
  toString_base64 :: "byte list \<Rightarrow> string"
  fetch_completion :: "requestBody \<Rightarrow> thrown + response"
  response_content :: "response \<Rightarrow> thrown + string option"
  JSON_parse :: "string \<Rightarrow> thrown + AIValidationResponse"
  new_Date :: nat

text \<open>What a run changes and leaves behind: the rows of the table \<open>CV\<close> by id, and the
  outside calls made so far, in order.\<close>

record task_world =
  rows :: "string \<rightharpoonup> CV"
  calls :: "outside_call list"



text \<open>\<open>prisma.cV.update({ where: { id }, data })\<close> at the call site \<open>site\<close>: the call is made;
  it throws what the environment says, or because no row has the id; otherwise the row is
  written.\<close>

definition update_row :: "task_env \<Rightarrow> outside_call \<Rightarrow> task_world \<Rightarrow> string \<Rightarrow> (CV \<Rightarrow> CV) \<Rightarrow> (thrown + unit) \<times> task_world" where
  "update_row env site w k data =
     (let w1 = w\<lparr>calls := calls w @ [site]\<rparr>
      in case write_throws env site of
           Some e \<Rightarrow> (Inl e, w1)
         | None \<Rightarrow>
             (case rows w k of
                None \<Rightarrow> (Inl (Error (not_found_error env)), w1)
              | Some row \<Rightarrow> (Inr (), w1\<lparr>rows := (rows w)(k \<mapsto> data row)\<rparr>)))"






text \<open>The \<open>catch\<close>: the message, then the update of the row when \<open>payload?.cvId\<close> is truthy
  (present and not the empty string); what that update throws is logged and dropped.\<close>

definition catch_block :: "task_env \<Rightarrow> raw_payload \<Rightarrow> thrown \<Rightarrow> task_world \<Rightarrow> task_world" where
  "catch_block env payload error w =
     (let errorMessage = (case error of Error m \<Rightarrow> m | NonError \<Rightarrow> ''Unknown validation error'')
      in case raw_cvId payload of
           None \<Rightarrow> w
         | Some c \<Rightarrow>
             if c = [] then w
             else (case update_row env Update_failed w c
                       (\<lambda>row. row\<lparr>validationStatus := ''failed'',
                                  validationErrors := [errorMessage],
                                  validatedAt := Some (new_Date env)\<rparr>) of
                     (Inl updateError, w') \<Rightarrow> w'
                   | (Inr u, w') \<Rightarrow> w'))"







section \<open>Properties of the aggregation\<close>

lemma loop_matchCount:
  "matchCount (loop fs v) = matchCount v + length (with_status ''match'' fs)"
  by (induction fs arbitrary: v) (simp_all add: loop_body_def with_status_def Let_def)

lemma loop_partialMatchCount:
  "partialMatchCount (loop fs v) = partialMatchCount v + length (with_status ''partial_match'' fs)"
  by (induction fs arbitrary: v) (simp_all add: loop_body_def with_status_def Let_def)

lemma loop_noMatchCount:
  "noMatchCount (loop fs v) = noMatchCount v + length (with_status ''no_match'' fs)"
  by (induction fs arbitrary: v) (simp_all add: loop_body_def with_status_def Let_def)

lemma loop_totalChecked:
  "totalChecked (loop fs v) = totalChecked v + length (checked fs)"
  by (induction fs arbitrary: v) (simp_all add: loop_body_def checked_def Let_def)

lemma loop_errors:
  "locals.errors (loop fs v) = locals.errors v @ map error_entry (with_status ''no_match'' fs)"
  by (induction fs arbitrary: v)
    (simp_all add: loop_body_def with_status_def error_entry_def Let_def)

lemmas loop_locals0 =
  loop_matchCount [of _ locals0] loop_partialMatchCount [of _ locals0]
  loop_noMatchCount [of _ locals0] loop_totalChecked [of _ locals0] loop_errors [of _ locals0]

lemma locals0_simps [simp]:
  "matchCount locals0 = 0" "partialMatchCount locals0 = 0" "noMatchCount locals0 = 0"
  "totalChecked locals0 = 0" "locals.errors locals0 = []"
  by (simp_all add: locals0_def)

lemma overallStatus_eq:
  "overallStatus (processValidationResults r) = fst (decide (loop (fields' r) locals0))"
  by (simp add: processValidationResults_def Let_def split: prod.splits)

lemma errors_eq:
  "errors (processValidationResults r) = snd (decide (loop (fields' r) locals0))"
  by (simp add: processValidationResults_def Let_def split: prod.splits)

text \<open>What the returned summary holds: \<open>totalChecked\<close> counts the verdicts whose status is
  not \<open>not_found\<close>, and the three counters tally their statuses.\<close>

lemma summary_eq:
  "summary_of r =
     \<lparr>totalChecked = length (checked (fields' r)),
      matchCount = length (with_status ''match'' (fields' r)),
      partialMatchCount = length (with_status ''partial_match'' (fields' r)),
      noMatchCount = length (with_status ''no_match'' (fields' r)),
      overallConfidence = mean_confidence (fields' r)\<rparr>"
  by (simp add: processValidationResults_def Let_def loop_locals0 split: prod.splits)

lemma ceil_70_le: "\<lceil>real t * (7 / 10)\<rceil> \<le> int t"
proof -
  have "real t * (7 / 10) \<le> real t" by simp
  then have "\<lceil>real t * (7 / 10)\<rceil> \<le> \<lceil>real t\<rceil>" by (rule ceiling_mono)
  then show ?thesis by simp
qed



lemma some_no_match: "(with_status ''no_match'' fs \<noteq> []) = (\<exists>f\<in>set fs. status f = ''no_match'')"
  by (auto simp: with_status_def filter_empty_conv)

text \<open>Under the declared type of \<open>status\<close> (one of the four literals) a verdict list without
  \<open>no_match\<close> is always validated, whatever it holds: each checked verdict is then a match or a
  partial match, so the 70 percent threshold is met, also by a list with nothing checked.\<close>

lemma declared_statuses_validated:
  assumes "\<forall>f\<in>set (fields' r). status f \<in> {''match'', ''partial_match'', ''not_found''}"
  shows "overallStatus (processValidationResults r) = ''validated''
       \<and> errors (processValidationResults r) = []"
proof -
  let ?fs = "fields' r"
  have nm: "with_status ''no_match'' ?fs = []"
    using assms by (auto simp: with_status_def filter_empty_conv)
  have "length (checked fs) = length (with_status ''match'' fs) + length (with_status ''partial_match'' fs)"
    if "\<forall>f\<in>set fs. status f \<in> {''match'', ''partial_match'', ''not_found''}" for fs
    using that by (induction fs) (auto simp: checked_def with_status_def)
  from this [OF assms] have
    "totalChecked (loop ?fs locals0) = matchCount (loop ?fs locals0) + partialMatchCount (loop ?fs locals0)"
    by (simp add: loop_locals0)
  then have "int (matchCount (loop ?fs locals0) + partialMatchCount (loop ?fs locals0))
      \<ge> \<lceil>real (totalChecked (loop ?fs locals0)) * (7 / 10)\<rceil>"
    using ceil_70_le [of "totalChecked (loop ?fs locals0)"] by simp
  then show ?thesis
    by (simp add: overallStatus_eq errors_eq decide_def loop_locals0 nm)
qed

text \<open>
  Claim C1. A verdict list in which every status is \<open>not_found\<close> should give
  \<open>totalChecked = 0\<close>, the outcome \<open>failed\<close> and the single error
  "Insufficient matches found between form data and PDF content". The code counts nothing
  as checked, but the guard \<open>totalChecked > 0\<close> of its second branch only hands the case
  to the third, where \<open>0 + 0 \<ge> Math.ceil(0 * 0.7)\<close> holds: the outcome is \<open>validated\<close> and no
  error is reported. Evaluated on two \<open>not_found\<close> verdicts.
\<close>

theorem all_not_found_is_validated:
  "totalChecked (summary_of
      \<lparr>fields' = [vf ''phone'' ''not_found'' 0, vf ''skills'' ''not_found'' 0]\<rparr>) = 0
   \<and> overallStatus (processValidationResults
      \<lparr>fields' = [vf ''phone'' ''not_found'' 0, vf ''skills'' ''not_found'' 0]\<rparr>) = ''validated''
   \<and> errors (processValidationResults
      \<lparr>fields' = [vf ''phone'' ''not_found'' 0, vf ''skills'' ''not_found'' 0]\<rparr>) = []"
  by (simp add: processValidationResults_def Let_def decide_def loop_body_def locals0_def vf_def)



text \<open>
  Claim C3. If at least one verdict is \<open>no_match\<close> the outcome is \<open>failed\<close>, whether or not
  the 70 percent threshold is met, and the error list is exactly the entries
  \<open>field: reason\<close> of the \<open>no_match\<close> verdicts, one each, in input order.
\<close>

theorem no_match_fails_with_entries:
  assumes "\<exists>f\<in>set (fields' r). status f = ''no_match''"
  shows "overallStatus (processValidationResults r) = ''failed''
       \<and> errors (processValidationResults r) = map error_entry (with_status ''no_match'' (fields' r))"
proof -
  have "noMatchCount (loop (fields' r) locals0) > 0"
    using assms by (simp add: loop_locals0 some_no_match)
  then show ?thesis
    by (simp add: overallStatus_eq errors_eq decide_def loop_locals0)
qed

theorem no_match_fails_with_entries_witness:
  "(\<exists>f\<in>set (fields' three_and_contradiction). status f = ''no_match'')
   \<and> overallStatus (processValidationResults three_and_contradiction) = ''failed''
   \<and> errors (processValidationResults three_and_contradiction)
       = [''email: checked email'', ''experience: checked experience'']"
proof -
  have h: "\<exists>f\<in>set (fields' three_and_contradiction). status f = ''no_match''"
    by (simp add: three_and_contradiction_def vf_def)
  have "map error_entry (with_status ''no_match'' (fields' three_and_contradiction))
      = [''email: checked email'', ''experience: checked experience'']"
    by (simp add: three_and_contradiction_def vf_def with_status_def error_entry_def)
  with no_match_fails_with_entries [OF h] h show ?thesis by (simp only: simp_thms)
qed

text \<open>
  Claim C4. Whenever the outcome is \<open>failed\<close> the error list is not empty: it holds the
  entries of the \<open>no_match\<close> verdicts, and when there is none (the failure came from the
  70 percent threshold) it is the single generic message.
\<close>

theorem failed_has_errors:
  assumes "overallStatus (processValidationResults r) = ''failed''"
  shows "errors (processValidationResults r) \<noteq> []
       \<and> (with_status ''no_match'' (fields' r) = []
            \<longrightarrow> errors (processValidationResults r) = [insufficient])"
proof (cases "noMatchCount (loop (fields' r) locals0) > 0")
  case True
  then have "with_status ''no_match'' (fields' r) \<noteq> []"
    by (simp add: loop_locals0)
  with True show ?thesis
    by (simp add: errors_eq decide_def loop_locals0)
next
  case False
  then have e: "with_status ''no_match'' (fields' r) = []"
    by (simp add: loop_locals0)
  from assms False show ?thesis
    by (simp add: overallStatus_eq errors_eq decide_def loop_locals0 e split: if_splits)
qed

theorem failed_has_errors_witness:
  "overallStatus (processValidationResults one_contradiction) = ''failed''
   \<and> errors (processValidationResults one_contradiction) \<noteq> []
   \<and> overallStatus (processValidationResults unknown_statuses) = ''failed''
   \<and> with_status ''no_match'' (fields' unknown_statuses) = []
   \<and> errors (processValidationResults unknown_statuses)
       = [''Insufficient matches found between form data and PDF content'']"
proof -
  have h1: "overallStatus (processValidationResults one_contradiction) = ''failed''"
    by (simp add: processValidationResults_def Let_def decide_def loop_body_def locals0_def
        vf_def one_contradiction_def)
  have h2: "overallStatus (processValidationResults unknown_statuses) = ''failed''"
    by (simp add: processValidationResults_def Let_def decide_def loop_body_def locals0_def
        vf_def unknown_statuses_def)
  have h3: "with_status ''no_match'' (fields' unknown_statuses) = []"
    by (simp add: unknown_statuses_def vf_def with_status_def)
  from failed_has_errors [OF h1] failed_has_errors [OF h2] h1 h2 h3
  show ?thesis by (simp only: simp_thms insufficient_def)
qed

text \<open>The arithmetic of numbers on the values used below.\<close>

lemma decimal_tenths:
  "decimal 1 10 = Finite False 7205759403792794 (- 56)"
  "decimal 2 10 = Finite False 7205759403792794 (- 55)"
  "decimal 3 10 = Finite False 5404319552844595 (- 54)"
  by code_simp+

lemma mean_of_tenths:
  "fdiv (fadd (fadd (fadd plus_zero (decimal 1 10)) (decimal 2 10)) (decimal 3 10))
       (number_of_nat (Suc (Suc (Suc 0))))
     = Finite False 7205759403792795 (- 55)"
  by code_simp

lemma mean_of_nine_eight_ten:
  "fdiv (fadd (fadd (fadd plus_zero (decimal 9 10)) (decimal 8 10)) (decimal 1 1))
       (number_of_nat (Suc (Suc (Suc 0))))
     = decimal 9 10"
  by code_simp

lemma zero_by_one: "fdiv plus_zero (number_of_nat (Suc 0)) = plus_zero"
  by code_simp

lemma foldl_confidence:
  "foldl (\<lambda>sum f. fadd sum (confidence_or_0 f)) a fs
     = added_in_turn a (map (\<lambda>f. case confidence f of None \<Rightarrow> plus_zero | Some c \<Rightarrow> c) fs)"
  by (induction fs arbitrary: a) (simp_all add: confidence_or_0_def)

lemma overallConfidence_eq: "overallConfidence (summary_of r) = mean_confidence (fields' r)"
  by (simp add: summary_eq)

text \<open>
  Claim C5, as stated: \<open>overallConfidence\<close> is the arithmetic mean of the confidence values.
  The additions and the division are those of doubles and each one rounds: for the
  confidences 0.1, 0.2 and 0.3 the result is the double 0.20000000000000004, which is not
  the mean of the three values (and not the double nearest to it, 0.2).
\<close>

theorem overallConfidence_of_tenths:
  "overallConfidence (summary_of three_tenths) = Finite False 7205759403792795 (- 55)
   \<and> value_of (overallConfidence (summary_of three_tenths))
       \<noteq> (value_of (decimal 1 10) + value_of (decimal 2 10) + value_of (decimal 3 10)) / 3
   \<and> overallConfidence (summary_of three_tenths) \<noteq> decimal 2 10"
proof -
  have "overallConfidence (summary_of three_tenths) = Finite False 7205759403792795 (- 55)"
    by (simp add: overallConfidence_eq mean_confidence_def three_tenths_def verdict_def
        confidence_or_0_def mean_of_tenths)
  then show ?thesis
    by (simp add: decimal_tenths value_of_def)
qed

text \<open>
  Claim C5, amended. \<open>overallConfidence\<close> is the mean of the confidence values of all
  verdicts, those with status \<open>not_found\<close> included and a missing value counted as 0,
  computed in double arithmetic: the values are added one after another, starting from 0,
  and the sum is divided by the number of verdicts, each addition and the division rounded
  to the nearest double. For the empty list it is 0, and for the confidences 0.9, 0.8 and
  1.0 it is the double 0.9.
\<close>

theorem overallConfidence_is_rounded_mean:
  "overallConfidence (summary_of r)
     = rounded_mean (map (\<lambda>f. case confidence f of None \<Rightarrow> plus_zero | Some c \<Rightarrow> c) (fields' r))
   \<and> (fields' r = [] \<longrightarrow> overallConfidence (summary_of r) = plus_zero)
   \<and> (map confidence (fields' r) = [Some (decimal 9 10), Some (decimal 8 10), Some (decimal 1 1)]
        \<longrightarrow> overallConfidence (summary_of r) = decimal 9 10)"
proof (intro conjI impI)
  show "overallConfidence (summary_of r)
     = rounded_mean (map (\<lambda>f. case confidence f of None \<Rightarrow> plus_zero | Some c \<Rightarrow> c) (fields' r))"
    by (cases "fields' r")
      (simp_all add: overallConfidence_eq mean_confidence_def rounded_mean_def foldl_confidence)
  show "overallConfidence (summary_of r) = plus_zero" if "fields' r = []"
    using that by (simp add: overallConfidence_eq mean_confidence_def zero_by_one)
  assume "map confidence (fields' r) = [Some (decimal 9 10), Some (decimal 8 10), Some (decimal 1 1)]"
  then obtain a b c where "fields' r = [a, b, c]" "confidence a = Some (decimal 9 10)"
    "confidence b = Some (decimal 8 10)" "confidence c = Some (decimal 1 1)"
    by (auto simp: map_eq_Cons_conv)
  then show "overallConfidence (summary_of r) = decimal 9 10"
    by (simp add: overallConfidence_eq mean_confidence_def confidence_or_0_def
        mean_of_nine_eight_ten)
qed

theorem overallConfidence_is_rounded_mean_witness:
  "map confidence (fields' three_confidences)
     = [Some (decimal 9 10), Some (decimal 8 10), Some (decimal 1 1)]
   \<and> status (fields' three_confidences ! 1) = ''not_found''
   \<and> overallConfidence (summary_of three_confidences) = decimal 9 10
   \<and> decimal 9 10 = Finite False 8106479329266893 (- 53)
   \<and> fields' \<lparr>fields' = []\<rparr> = []
   \<and> overallConfidence (summary_of \<lparr>fields' = []\<rparr>) = plus_zero"
proof -
  have h: "map confidence (fields' three_confidences)
      = [Some (decimal 9 10), Some (decimal 8 10), Some (decimal 1 1)]"
    by (simp add: three_confidences_def verdict_def)
  have n: "status (fields' three_confidences ! 1) = ''not_found''"
    by (simp add: three_confidences_def verdict_def)
  have e: "fields' \<lparr>fields' = []\<rparr> = []" by simp
  have d: "decimal 9 10 = Finite False 8106479329266893 (- 53)" by code_simp
  have "overallConfidence (summary_of three_confidences) = decimal 9 10"
    using overallConfidence_is_rounded_mean [of three_confidences, THEN conjunct2, THEN conjunct2,
        rule_format, OF h] .
  moreover have "overallConfidence (summary_of \<lparr>fields' = []\<rparr>) = plus_zero"
    using overallConfidence_is_rounded_mean [of "\<lparr>fields' = []\<rparr>", THEN conjunct2, THEN conjunct1,
        rule_format, OF e] .
  ultimately show ?thesis using h n e d by (simp only: simp_thms)
qed

section \<open>Properties of the reply normalisation\<close>

lemma not_ws_backtick [simp]: "\<not> is_ws (CHR 0x60)"
  by (simp add: is_ws_def)

lemma is_ws_newline [simp]: "is_ws (CHR 0x0A)"
  by (simp add: is_ws_def)

lemma rev_dropWhile_split: "d = rev (dropWhile P (rev d)) @ rev (takeWhile P (rev d))"
proof -
  have "rev (takeWhile P (rev d) @ dropWhile P (rev d)) = rev (rev d)"
    by (rule arg_cong [where f = rev]) (rule takeWhile_dropWhile_id)
  then show ?thesis by (simp only: rev_append rev_rev_ident)
qed

lemma dropWhile_eq_trim:
  "dropWhile is_ws x = trim x @ rev (takeWhile is_ws (rev (dropWhile is_ws x)))"
  unfolding trim_def by (rule rev_dropWhile_split)

text \<open>A string is its trimmed text between two runs of white space.\<close>

lemma trim_decomp:
  obtains w1 w2 where "x = w1 @ trim x @ w2" "\<forall>c\<in>set w1. is_ws c" "\<forall>c\<in>set w2. is_ws c"
proof
  let ?d = "dropWhile is_ws x"
  have "x = takeWhile is_ws x @ ?d" by simp
  also have "?d = trim x @ rev (takeWhile is_ws (rev ?d))" by (rule dropWhile_eq_trim)
  finally show "x = takeWhile is_ws x @ trim x @ rev (takeWhile is_ws (rev ?d))" .
  show "\<forall>c\<in>set (takeWhile is_ws x). is_ws c" by (auto dest: set_takeWhileD)
  show "\<forall>c\<in>set (rev (takeWhile is_ws (rev ?d))). is_ws c" by (auto dest: set_takeWhileD)
qed

lemma trim_last: "trim x \<noteq> [] \<Longrightarrow> \<not> is_ws (last (trim x))"
  unfolding trim_def by (simp add: last_rev hd_dropWhile)

lemma trim_hd:
  assumes "trim x \<noteq> []"
  shows "\<not> is_ws (hd (trim x))"
proof -
  let ?d = "dropWhile is_ws x"
  have eq: "?d = trim x @ rev (takeWhile is_ws (rev ?d))" by (rule dropWhile_eq_trim)
  from assms have "hd (trim x @ rev (takeWhile is_ws (rev ?d))) = hd (trim x)" by simp
  with eq have "hd (trim x) = hd ?d" by simp
  moreover from eq assms have "?d \<noteq> []" by (metis append_is_Nil_conv)
  ultimately show ?thesis by (simp add: hd_dropWhile)
qed

lemma dropWhile_ws_append:
  "\<forall>c\<in>set w. is_ws c \<Longrightarrow> dropWhile is_ws (w @ r) = dropWhile is_ws r"
  by (induction w) simp_all

text \<open>The closing pattern cannot match at a position that still has a character other
  than white space before the final fence.\<close>

lemma no_close_inside:
  assumes "\<exists>a\<in>set y. \<not> is_ws a"
  shows "dropWhile is_ws (y @ w @ ''```'') \<noteq> ''```''"
proof
  assume eq: "dropWhile is_ws (y @ w @ ''```'') = ''```''"
  define d where "d = dropWhile is_ws y"
  from assms have "dropWhile is_ws (y @ w @ ''```'') = d @ w @ ''```''"
    unfolding d_def by (metis dropWhile_append1)
  moreover from assms have "d \<noteq> []"
    unfolding d_def by simp
  ultimately have "length (dropWhile is_ws (y @ w @ ''```'')) > 3"
    by (cases d) simp_all
  with eq show False by simp
qed

lemma replace_close_strip:
  assumes "\<forall>c\<in>set w. is_ws c" and "y = [] \<or> \<not> is_ws (last y)"
  shows "replace_close (y @ w @ ''```'') = y"
  using assms(2)
proof (induction y)
  case Nil
  have "dropWhile is_ws (w @ ''```'') = ''```''"
    using assms(1) by (simp add: dropWhile_ws_append)
  then show ?case by (cases "w @ ''```''") auto
next
  case (Cons c cs)
  have "\<exists>a\<in>set (c # cs). \<not> is_ws a"
    using Cons.prems by (metis last_in_set list.distinct(1))
  then have ne: "dropWhile is_ws ((c # cs) @ w @ ''```'') \<noteq> ''```''"
    by (rule no_close_inside)
  have "cs = [] \<or> \<not> is_ws (last cs)" using Cons.prems by (cases cs) auto
  then have "replace_close (cs @ w @ ''```'') = cs" by (rule Cons.IH)
  with ne show ?case by (simp del: dropWhile.simps)
qed

lemma trim_fenced: "trim (fenced tag x) = fenced tag x"
  by (simp add: trim_def fenced_def)

lemma replace_open_prefix:
  "p \<noteq> [] \<Longrightarrow> replace_open p (p @ s) = dropWhile is_ws s"
  by (cases p) (simp_all add: startsWith_def)

text \<open>Removing the two fences around a text leaves the trimmed text.\<close>

lemma strip_fences:
  assumes "lit \<noteq> []"
  shows "replace_close (replace_open lit (lit @ [CHR 0x0A] @ x @ [CHR 0x0A] @ ''```'')) = trim x"
proof -
  define y where "y = trim x"
  obtain w1 w2 where x: "x = w1 @ y @ w2"
    and w1: "\<forall>c\<in>set w1. is_ws c" and w2: "\<forall>c\<in>set w2. is_ws c"
    unfolding y_def by (rule trim_decomp)
  have y_hd: "y \<noteq> [] \<Longrightarrow> \<not> is_ws (hd y)" and y_last: "y \<noteq> [] \<Longrightarrow> \<not> is_ws (last y)"
    unfolding y_def by (rule trim_hd, assumption) (rule trim_last, assumption)
  let ?w = "w2 @ [CHR 0x0A]"
  have w: "\<forall>c\<in>set ?w. is_ws c" using w2 by auto
  have "lit @ [CHR 0x0A] @ x @ [CHR 0x0A] @ ''```'' = lit @ ([CHR 0x0A] @ w1) @ y @ ?w @ ''```''"
    by (simp add: x)
  then have "replace_open lit (lit @ [CHR 0x0A] @ x @ [CHR 0x0A] @ ''```'')
      = dropWhile is_ws (([CHR 0x0A] @ w1) @ y @ ?w @ ''```'')"
    by (simp only: replace_open_prefix [OF assms])
  also have "\<dots> = dropWhile is_ws (y @ ?w @ ''```'')"
    by (rule dropWhile_ws_append) (use w1 in auto)
  finally have ro: "replace_open lit (lit @ [CHR 0x0A] @ x @ [CHR 0x0A] @ ''```'')
      = dropWhile is_ws (y @ ?w @ ''```'')" .
  have "replace_close (dropWhile is_ws (y @ ?w @ ''```'')) = y"
  proof (cases "y = []")
    case True
    have "dropWhile is_ws (?w @ ''```'') = ''```''"
      using w by (simp only: dropWhile_ws_append) simp
    then show ?thesis using True by simp
  next
    case False
    then have "\<not> is_ws (hd y)" by (rule y_hd)
    with False have "dropWhile is_ws (y @ ?w @ ''```'') = y @ ?w @ ''```''"
      by (cases y) simp_all
    moreover have "replace_close (y @ ?w @ ''```'') = y"
      using w y_last by (intro replace_close_strip) auto
    ultimately show ?thesis by simp
  qed
  with ro show ?thesis by (simp add: y_def)
qed

lemma cleaned_fenced_json: "cleanedResponse (fenced ''json'' x) = trim x"
proof -
  have "startsWith (fenced ''json'' x) ''```json''"
    by (simp add: startsWith_def fenced_def)
  moreover have "replace_close (replace_open ''```json'' (fenced ''json'' x)) = trim x"
    using strip_fences [of "''```json''" x] by (simp add: fenced_def)
  ultimately show ?thesis
    by (simp add: cleanedResponse_def trim_fenced Let_def)
qed

lemma cleaned_fenced_bare: "cleanedResponse (fenced [] x) = trim x"
proof -
  have "\<not> startsWith (fenced [] x) ''```json''"
    by (simp add: startsWith_def fenced_def)
  moreover have "startsWith (fenced [] x) ''```''"
    by (simp add: startsWith_def fenced_def)
  moreover have "replace_close (replace_open ''```'' (fenced [] x)) = trim x"
    using strip_fences [of "''```''" x] by (simp add: fenced_def)
  ultimately show ?thesis
    by (simp add: cleanedResponse_def trim_fenced Let_def)
qed

lemma startsWith_longer:
  assumes "startsWith s (p @ q)"
  shows "startsWith s p"
proof -
  from assms have "take (length (p @ q)) s = p @ q" by (simp add: startsWith_def)
  then have "take (length p) (take (length (p @ q)) s) = take (length p) (p @ q)" by simp
  then show ?thesis by (simp add: startsWith_def min_def)
qed

lemma cleaned_unfenced:
  assumes "\<not> startsWith (trim x) ''```''"
  shows "cleanedResponse x = trim x"
proof -
  have "\<not> startsWith (trim x) ''```json''"
    using assms startsWith_longer [of "trim x" "''```''" "''json''"] by auto
  with assms show ?thesis by (simp add: cleanedResponse_def Let_def)
qed

text \<open>
  Claim C6, as stated: the text wrapped in a fence that carries a language tag, such as
  \<open>json\<close>, is parsed as the text itself. The code removes the tag only when it is \<open>json\<close>:
  with another tag the first branch does not apply, the second removes the three backticks
  alone, and the tag stays at the head of the text handed to \<open>JSON.parse\<close>, which is then
  not the text of the unwrapped reply (and begins with a letter that starts no JSON value).
\<close>

theorem other_tag_stays_in_reply:
  "cleanedResponse (fenced ''javascript'' ''{}'') = ''javascript'' @ [CHR 0x0A] @ ''{}''
   \<and> cleanedResponse ''{}'' = ''{}''
   \<and> cleanedResponse (fenced ''javascript'' ''{}'') \<noteq> cleanedResponse ''{}''"
  by (simp add: cleanedResponse_def fenced_def trim_def startsWith_def is_ws_def Let_def)

text \<open>
  Claim C6, amended. For a reply text \<open>x\<close>, the text wrapped in a \<open>```json\<close> fence, or in a
  fence without a tag, is normalised to the same string as \<open>x\<close> itself, so whatever parser is
  applied next gives the same result. The hypothesis holds for every JSON text: no JSON
  value begins with a backtick.
\<close>

theorem fenced_reply_same_as_unwrapped:
  assumes "\<not> startsWith (trim x) ''```''"
  shows "parse (cleanedResponse (fenced ''json'' x)) = parse (cleanedResponse x)
       \<and> parse (cleanedResponse (fenced [] x)) = parse (cleanedResponse x)"
  by (simp add: cleaned_fenced_json cleaned_fenced_bare cleaned_unfenced [OF assms])

theorem fenced_reply_same_as_unwrapped_witness:
  "\<not> startsWith (trim (''  {\"fields\": []}'' @ [CHR 0x0A])) ''```''
   \<and> cleanedResponse (fenced ''json'' (''  {\"fields\": []}'' @ [CHR 0x0A]))
       = cleanedResponse (''  {\"fields\": []}'' @ [CHR 0x0A])
   \<and> cleanedResponse (fenced [] (''  {\"fields\": []}'' @ [CHR 0x0A]))
       = cleanedResponse (''  {\"fields\": []}'' @ [CHR 0x0A])
   \<and> cleanedResponse (''  {\"fields\": []}'' @ [CHR 0x0A]) = ''{\"fields\": []}''"
proof -
  have h: "\<not> startsWith (trim (''  {\"fields\": []}'' @ [CHR 0x0A])) ''```''"
    by (simp add: trim_def startsWith_def is_ws_def)
  have c: "cleanedResponse (''  {\"fields\": []}'' @ [CHR 0x0A]) = ''{\"fields\": []}''"
    by (simp add: cleanedResponse_def trim_def startsWith_def is_ws_def Let_def)
  from fenced_reply_same_as_unwrapped [OF h, of "\<lambda>s. s"] h c
  show ?thesis by (simp only: simp_thms)
qed

section \<open>Properties of the prompt\<close>

lemma includes_prefix: "includesStr (p @ b) p"
proof (cases "p @ b")
  case Nil
  then show ?thesis by simp
next
  case (Cons c cs)
  have "startsWith (p @ b) p" by (simp add: startsWith_def)
  with Cons show ?thesis by simp
qed

lemma includes_append: "includesStr (a @ p @ b) p"
  by (induction a) (simp_all add: includes_prefix)

lemma template_lines_append: "template_lines (as @ bs) = template_lines as @ template_lines bs"
  by (simp add: template_lines_def)

text \<open>Every line of a template occurs in the text it builds.\<close>

lemma includes_line:
  assumes "l \<in> set ls"
  shows "includesStr (pre @ template_lines ls) l"
proof -
  from assms obtain as bs where "ls = as @ l # bs" by (auto simp: in_set_conv_decomp)
  then have "pre @ template_lines ls
      = (pre @ template_lines as) @ l @ ([CHR 0x0A] @ template_lines bs)"
    by (simp add: template_lines_def)
  then show ?thesis by (simp only: includes_append)
qed

text \<open>A text that includesStr a line includesStr every part of that line.\<close>

lemma includes_part:
  assumes "includesStr s (a @ p @ b)"
  shows "includesStr s p"
  using assms
proof (induction s)
  case Nil
  then show ?case by simp
next
  case (Cons c cs)
  show ?case
  proof (cases "startsWith (c # cs) (a @ p @ b)")
    case True
    then have "c # cs = (a @ p @ b) @ drop (length (a @ p @ b)) (c # cs)"
      unfolding startsWith_def by (metis append_take_drop_id)
    then have "c # cs = a @ p @ (b @ drop (length (a @ p @ b)) (c # cs))" by simp
    then show ?thesis by (metis includes_append)
  next
    case False
    with Cons show ?thesis by simp
  qed
qed

lemma prompt_line:
  "l \<in> set [''- Full Name: \"'' @ fullName fd @ ''\"'', ''- Email: \"'' @ email fd @ ''\"'',
     ''- Phone: \"'' @ orNotProvided (phone fd) @ ''\"'',
     ''- Skills: \"'' @ orNotProvided (skills fd) @ ''\"'',
     ''- Experience: \"'' @ orNotProvided (experience fd) @ ''\"'']
   \<Longrightarrow> includesStr (createDocumentValidationPrompt fd) l"
  unfolding createDocumentValidationPrompt_def
  by (rule includes_line) (simp only: list.set, blast)

text \<open>
  Claim C8. \<open>createDocumentValidationPrompt\<close> is a total function of the form data (it has
  no error result), and its text lists every submitted value on the line of its field:
  the name and the e-mail address as given, and for each of \<open>phone\<close>, \<open>skills\<close> and
  \<open>experience\<close> the submitted value, or the literal text \<open>Not provided\<close> when the field is
  absent.
\<close>

theorem prompt_lists_each_value:
  "includesStr (createDocumentValidationPrompt fd) (''- Full Name: \"'' @ fullName fd @ ''\"'')
   \<and> includesStr (createDocumentValidationPrompt fd) (''- Email: \"'' @ email fd @ ''\"'')
   \<and> (\<forall>v. phone fd = Some v \<longrightarrow>
         includesStr (createDocumentValidationPrompt fd) (''- Phone: \"'' @ v @ ''\"''))
   \<and> (phone fd = None \<longrightarrow>
         includesStr (createDocumentValidationPrompt fd) ''- Phone: \"Not provided\"'')
   \<and> (\<forall>v. skills fd = Some v \<longrightarrow>
         includesStr (createDocumentValidationPrompt fd) (''- Skills: \"'' @ v @ ''\"''))
   \<and> (skills fd = None \<longrightarrow>
         includesStr (createDocumentValidationPrompt fd) ''- Skills: \"Not provided\"'')
   \<and> (\<forall>v. experience fd = Some v \<longrightarrow>
         includesStr (createDocumentValidationPrompt fd) (''- Experience: \"'' @ v @ ''\"''))
   \<and> (experience fd = None \<longrightarrow>
         includesStr (createDocumentValidationPrompt fd) ''- Experience: \"Not provided\"'')"
proof -
  have 1: "includesStr (createDocumentValidationPrompt fd) (''- Full Name: \"'' @ fullName fd @ ''\"'')"
    by (rule prompt_line) simp
  have 2: "includesStr (createDocumentValidationPrompt fd) (''- Email: \"'' @ email fd @ ''\"'')"
    by (rule prompt_line) simp
  have 3: "includesStr (createDocumentValidationPrompt fd)
      (''- Phone: \"'' @ orNotProvided (phone fd) @ ''\"'')"
    by (rule prompt_line) simp
  have 4: "includesStr (createDocumentValidationPrompt fd)
      (''- Skills: \"'' @ orNotProvided (skills fd) @ ''\"'')"
    by (rule prompt_line) simp
  have 5: "includesStr (createDocumentValidationPrompt fd)
      (''- Experience: \"'' @ orNotProvided (experience fd) @ ''\"'')"
    by (rule prompt_line) simp
  from 1 2 3 4 5 show ?thesis
    by (auto simp: orNotProvided_def)
qed

theorem prompt_lists_each_value_witness:
  "phone sample_formData = Some ''555-0100'' \<and> skills sample_formData = None
   \<and> experience sample_formData = None
   \<and> includesStr (createDocumentValidationPrompt sample_formData) ''- Full Name: \"Ada Lovelace\"''
   \<and> includesStr (createDocumentValidationPrompt sample_formData) ''- Email: \"ada@example.org\"''
   \<and> includesStr (createDocumentValidationPrompt sample_formData) ''- Phone: \"555-0100\"''
   \<and> includesStr (createDocumentValidationPrompt sample_formData) ''- Skills: \"Not provided\"''
   \<and> includesStr (createDocumentValidationPrompt sample_formData) ''- Experience: \"Not provided\"''"
proof -
  have h: "phone sample_formData = Some ''555-0100''" "skills sample_formData = None"
    "experience sample_formData = None" "fullName sample_formData = ''Ada Lovelace''"
    "email sample_formData = ''ada@example.org''"
    by (simp_all add: sample_formData_def)
  from prompt_lists_each_value [of sample_formData] h show ?thesis
    by simp
qed

section \<open>Properties of the upload\<close>

lemma every_magic_iff: "every_magic (take 4 buffer) = (take 4 buffer = PDF_MAGIC_BYTES)"
proof (cases buffer)
  case Nil
  then show ?thesis by (simp add: every_magic_def PDF_MAGIC_BYTES_def)
next
  case b1: (Cons a1 r1)
  show ?thesis
  proof (cases r1)
    case Nil
    with b1 show ?thesis by (simp add: every_magic_def PDF_MAGIC_BYTES_def)
  next
    case b2: (Cons a2 r2)
    show ?thesis
    proof (cases r2)
      case Nil
      with b1 b2 show ?thesis by (simp add: every_magic_def PDF_MAGIC_BYTES_def)
    next
      case b3: (Cons a3 r3)
      show ?thesis
      proof (cases r3)
        case Nil
        with b1 b2 b3 show ?thesis by (simp add: every_magic_def PDF_MAGIC_BYTES_def)
      next
        case (Cons a4 r4)
        with b1 b2 b3 show ?thesis by (simp add: every_magic_def PDF_MAGIC_BYTES_def)
      qed
    qed
  qed
qed

lemma validateFileContent_rejects:
  assumes "length (decode content) > MAX_FILE_SIZE \<or> take 4 (decode content) \<noteq> PDF_MAGIC_BYTES
       \<or> \<not> endsWith (toLowerCase name) ''.pdf''"
  shows "\<exists>msg. validateFileContent decode content name = Inl (Error msg)
       \<and> (includesStr msg ''File too large'' \<or> includesStr msg ''Invalid file format''
          \<or> includesStr msg ''Invalid file extension'')"
proof -
  have 1: "includesStr (''File too large. Maximum size is '' @ ''10'' @ ''MB'') ''File too large''"
    by (simp add: startsWith_def)
  have 2: "includesStr ''Invalid file format. Only PDF files are allowed.'' ''Invalid file format''"
    by (simp add: startsWith_def)
  have 3: "includesStr ''Invalid file extension. Only .pdf files are allowed.'' ''Invalid file extension''"
    by (simp add: startsWith_def)
  from assms 1 2 3 show ?thesis
    unfolding validateFileContent_def Let_def every_magic_iff by auto
qed

lemma upload_catch_validation:
  assumes "includesStr msg ''File too large'' \<or> includesStr msg ''Invalid file format''
       \<or> includesStr msg ''Invalid file extension''"
  shows "upload_catch (Error msg) = Error msg"
  using assms by (auto simp: upload_catch_def)

text \<open>
  Claim C9. An upload whose decoded file content is larger than 10 MB, or does not begin
  with the four bytes \<open>%PDF\<close>, or whose file name does not end in \<open>.pdf\<close> when lowered,
  raises an error and leaves everything as it was: no object stored, no row created, no
  task requested.
\<close>

theorem upload_rejects_before_side_effects:
  assumes "length (base64_decode env (fileContent input)) > MAX_FILE_SIZE
       \<or> take 4 (base64_decode env (fileContent input)) \<noteq> PDF_MAGIC_BYTES
       \<or> \<not> endsWith (toLowerCase (upload_input.fileName input)) ''.pdf''"
  shows "\<exists>msg. upload env input w = (Inl (Error msg), w)"
proof (cases "input_issues env input = []")
  case False
  then show ?thesis by (simp add: upload_def)
next
  case True
  from validateFileContent_rejects [of "base64_decode env" "fileContent input"
      "upload_input.fileName input", OF assms] obtain msg where
    v: "validateFileContent (base64_decode env) (fileContent input) (upload_input.fileName input)
          = Inl (Error msg)"
    and m: "includesStr msg ''File too large'' \<or> includesStr msg ''Invalid file format''
          \<or> includesStr msg ''Invalid file extension''"
    by blast
  from True v have "upload env input w = (Inl (upload_catch (Error msg)), w)"
    by (simp add: upload_def upload_mutation_def)
  with upload_catch_validation [OF m] show ?thesis by simp
qed

theorem upload_rejects_before_side_effects_witness:
  "take 4 (base64_decode sample_env (fileContent text_as_pdf)) \<noteq> PDF_MAGIC_BYTES
   \<and> (\<exists>msg. upload sample_env text_as_pdf empty_world = (Inl (Error msg), empty_world))
   \<and> \<not> endsWith (toLowerCase (upload_input.fileName pdf_as_doc)) ''.pdf''
   \<and> (\<exists>msg. upload sample_env pdf_as_doc empty_world = (Inl (Error msg), empty_world))
   \<and> length (base64_decode (sample_env\<lparr>base64_decode := \<lambda>s. replicate (MAX_FILE_SIZE + 1) 0x25\<rparr>)
        (fileContent good_upload)) > MAX_FILE_SIZE
   \<and> (\<exists>msg. upload (sample_env\<lparr>base64_decode := \<lambda>s. replicate (MAX_FILE_SIZE + 1) 0x25\<rparr>)
        good_upload empty_world = (Inl (Error msg), empty_world))"
proof -
  have h1: "take 4 (base64_decode sample_env (fileContent text_as_pdf)) \<noteq> PDF_MAGIC_BYTES"
    by (simp add: sample_env_def text_as_pdf_def PDF_MAGIC_BYTES_def)
  have h2: "\<not> endsWith (toLowerCase (upload_input.fileName pdf_as_doc)) ''.pdf''"
    by (simp add: pdf_as_doc_def endsWith_def toLowerCase_def lower_char_def)
  have h3: "length (base64_decode (sample_env\<lparr>base64_decode := \<lambda>s. replicate (MAX_FILE_SIZE + 1) 0x25\<rparr>)
        (fileContent good_upload)) > MAX_FILE_SIZE"
    by simp
  from upload_rejects_before_side_effects [of sample_env text_as_pdf empty_world, OF disjI2, OF disjI1, OF h1]
    upload_rejects_before_side_effects [of sample_env pdf_as_doc empty_world, OF disjI2, OF disjI2, OF h2]
    upload_rejects_before_side_effects [of "sample_env\<lparr>base64_decode := \<lambda>s. replicate (MAX_FILE_SIZE + 1) 0x25\<rparr>"
      good_upload empty_world, OF disjI1, OF h3]
    h1 h2 h3
  show ?thesis by (simp only: simp_thms)
qed

text \<open>
  Claim C10. When the input passes the schema and the file checks, the object is stored
  and the row is created, and the trigger of the validation task throws, the upload still
  returns its success result with the id of the new row: the row is in the table and no
  task run was recorded.
\<close>

theorem upload_survives_trigger_failure:
  assumes "input_issues env input = []"
    and "validateFileContent (base64_decode env) (fileContent input) (upload_input.fileName input)
          = Inr fileBuffer"
    and "putObject_throws env = None"
    and "create_throws env = None"
    and "trigger_throws env = Some e"
  shows "fst (upload env input w) =
           Inr \<lparr>success = True, upload_result.id' = new_id env,
                 message = ''CV uploaded successfully. AI validation is in progress.''\<rparr>
         \<and> (\<exists>cv. table (snd (upload env input w)) (new_id env) = Some cv
                \<and> CV.id' cv = new_id env \<and> validationStatus cv = ''pending'')
         \<and> bucket (snd (upload env input w))
              (dec (Date_now env) @ ''-'' @ upload_input.fileName input) = Some fileBuffer
         \<and> triggered (snd (upload env input w)) = triggered w"
  using assms
  by (simp add: upload_def upload_mutation_def putObject_def create_def trigger_def Let_def)

lemma dec_1700: "dec 1700 = ''1700''"
  by code_simp

lemma lower_Ada_PDF: "toLowerCase ''Ada.PDF'' = ''ada.pdf''"
  by code_simp

theorem upload_survives_trigger_failure_witness:
  "input_issues sample_env good_upload = []
   \<and> validateFileContent (base64_decode sample_env) (fileContent good_upload)
        (upload_input.fileName good_upload) = Inr [0x25, 0x50, 0x44, 0x46, 0x2D, 0x31, 0x2E, 0x37]
   \<and> putObject_throws sample_env = None \<and> create_throws sample_env = None
   \<and> trigger_throws sample_env = Some (Error ''TRIGGER_API_KEY is not set'')
   \<and> fst (upload sample_env good_upload empty_world) =
           Inr \<lparr>success = True, upload_result.id' = ''cv1'',
                 message = ''CV uploaded successfully. AI validation is in progress.''\<rparr>
   \<and> (\<exists>cv. table (snd (upload sample_env good_upload empty_world)) ''cv1'' = Some cv
          \<and> CV.id' cv = ''cv1'' \<and> validationStatus cv = ''pending'')
   \<and> bucket (snd (upload sample_env good_upload empty_world)) ''1700-Ada.PDF''
        = Some [0x25, 0x50, 0x44, 0x46, 0x2D, 0x31, 0x2E, 0x37]
   \<and> triggered (snd (upload sample_env good_upload empty_world)) = []"
proof -
  have h1: "input_issues sample_env good_upload = []"
    by (simp add: input_issues_def sample_env_def good_upload_def)
  have h2: "validateFileContent (base64_decode sample_env) (fileContent good_upload)
        (upload_input.fileName good_upload) = Inr [0x25, 0x50, 0x44, 0x46, 0x2D, 0x31, 0x2E, 0x37]"
    by (simp add: validateFileContent_def sample_env_def good_upload_def MAX_FILE_SIZE_def
        every_magic_def PDF_MAGIC_BYTES_def endsWith_def lower_Ada_PDF Let_def)
  have h3: "putObject_throws sample_env = None" "create_throws sample_env = None"
    "trigger_throws sample_env = Some (Error ''TRIGGER_API_KEY is not set'')"
    by (simp_all add: sample_env_def)
  have d: "Date_now sample_env = 1700" "upload_input.fileName good_upload = ''Ada.PDF''"
    "triggered empty_world = []" "new_id sample_env = ''cv1''"
    by (simp_all add: sample_env_def good_upload_def empty_world_def)
  from upload_survives_trigger_failure [OF h1 h2 h3, of empty_world] h1 h2 h3
  show ?thesis by (simp add: d dec_1700)
qed

section \<open>Properties of the background task\<close>








text \<open>When the write of the \<open>catch\<close> itself throws, the error is dropped and the rows stay as
  the \<open>try\<close> left them.\<close>

lemma catch_block_write_fails:
  assumes "write_throws env Update_failed = Some e"
  shows "rows (catch_block env payload error w) = rows w"
  using assms by (simp add: catch_block_def update_row_def split: option.splits)





end
